theory Spec2Isabelle
  imports Main "HOL-Library.Sublist" "HOL-Library.AList"
begin

section \<open>JavaScript values used by chrome-helper.ts\<close>

text \<open>
  A value of a parsed query string (\<open>ParsedUrlQuery\<close>): a string, or an array of strings
  when the parameter is repeated. An absent key is \<open>undefined\<close>, modelled as \<open>None\<close>.
  The query object itself is the list of its own keys in insertion order, each key once.
\<close>

datatype qvalue = QStr string | QArr "string list"

type_synonym ParsedUrlQuery = "(string \<times> qvalue) list"

text \<open>\<open>String.prototype.split\<close> with a one-character separator.\<close>

fun js_split :: "char \<Rightarrow> string \<Rightarrow> string list" where
  "js_split c [] = [[]]"
| "js_split c (x # xs) =
     (if x = c then [] # js_split c xs
      else (case js_split c xs of
              [] \<Rightarrow> [[x]]
            | t # ts \<Rightarrow> (x # t) # ts))"

text \<open>\<open>Array.prototype.join\<close>, which is also how an array of strings is turned into a
  string by a template literal (with the separator \<open>,\<close>).\<close>

fun js_join :: "string \<Rightarrow> string list \<Rightarrow> string" where
  "js_join sep [] = []"
| "js_join sep [t] = t"
| "js_join sep (t # u # ts) = t @ sep @ js_join sep (u # ts)"

text \<open>\<open>String.prototype.includes\<close> and \<open>String.prototype.startsWith\<close>.\<close>

definition js_includes :: "string \<Rightarrow> string \<Rightarrow> bool" where
  "js_includes s sub = sublist sub s"

definition js_startsWith :: "string \<Rightarrow> string \<Rightarrow> bool" where
  "js_startsWith s p = prefix p s"

text \<open>Truthiness and string conversion of a query value: the empty string is the only
  falsy one, every array is truthy.\<close>

fun q_truthy :: "qvalue \<Rightarrow> bool" where
  "q_truthy (QStr s) = (s \<noteq> [])"
| "q_truthy (QArr xs) = True"

fun q_toString :: "qvalue \<Rightarrow> string" where
  "q_toString (QStr s) = s"
| "q_toString (QArr xs) = js_join '','' xs"

text \<open>\<open>x || y\<close> on optional query values.\<close>

definition q_or :: "qvalue option \<Rightarrow> qvalue option \<Rightarrow> qvalue option" where
  "q_or x y = (case x of None \<Rightarrow> y | Some v \<Rightarrow> if q_truthy v then Some v else y)"

section \<open>Compiled-in configuration\<close>

text \<open>
  The constants imported from \<open>./config\<close>, \<open>./constants\<close> and \<open>../env\<close>. Their values are
  not part of chrome-helper.ts, so every function below takes them as a parameter.
  \<open>PORT\<close> is the decimal text of the port as a template literal prints it.
\<close>

record config =
  DEFAULT_BLOCK_ADS :: bool
  DEFAULT_DUMPIO :: bool
  DEFAULT_HEADLESS :: bool
  DEFAULT_IGNORE_HTTPS_ERRORS :: bool
  DEFAULT_LAUNCH_ARGS :: "string list"
  DEFAULT_USER_DATA_DIR :: "string option"
  DISABLE_AUTO_SET_DOWNLOAD_BEHAVIOR :: bool
  DISABLED_FEATURES :: "string list"
  Features_DEBUG_VIEWER :: string
  USE_CHROME_STABLE :: bool
  PUPPETEER_CHROMIUM_REVISION :: int
  HOST :: "string option"
  PORT :: string
  PROXY_HOST :: "string option"
  PROXY_PORT :: "string option"
  PROXY_SSL :: bool
  WORKSPACE_DIR :: string
  PLAYWRIGHT_ROUTE :: string

definition BROWSERLESS_ARGS :: "string list" where
  "BROWSERLESS_ARGS =
     [''--no-sandbox'', ''--enable-logging'', ''--v1=1'', ''--disable-dev-shm-usage'']"

section \<open>Launch options\<close>

datatype ignoreDefaultArgs_t = IgnoreBool bool | IgnoreList "string list"

text \<open>
  \<open>ILaunchOptions\<close>. A field that may be \<open>undefined\<close> is an option. \<open>userDataDir\<close> is
  declared a string, but convertUrlParamsToLaunchOpts stores the query value as it is
  (\<open>userDataDir as string\<close>), so the field holds a query value.
\<close>

record ILaunchOptions =
  args :: "string list option"
  blockAds :: bool
  dumpio :: "bool option"
  headless :: "bool option"
  ignoreDefaultArgs :: ignoreDefaultArgs_t
  ignoreHTTPSErrors :: bool
  keepalive :: "int option"
  pauseOnConnect :: bool
  playwright :: bool
  slowMo :: "int option"
  trackingId :: "string option"
  userDataDir :: "qvalue option"

text \<open>\<open>parseIgnoreDefaultArgs\<close> (lines 74-88). The last branch is reached with a defined
  value only.\<close>

definition parseIgnoreDefaultArgs :: "ParsedUrlQuery \<Rightarrow> ignoreDefaultArgs_t" where
  "parseIgnoreDefaultArgs query =
     (let defaultArgs = map_of query ''ignoreDefaultArgs'' in
      if defaultArgs = None \<or> defaultArgs = Some (QStr ''false'') then IgnoreBool False
      else if defaultArgs = Some (QStr '''') \<or> defaultArgs = Some (QStr ''true'')
        then IgnoreBool True
      else (case defaultArgs of
              Some (QArr xs) \<Rightarrow> IgnoreList xs
            | Some (QStr s) \<Rightarrow> IgnoreList (js_split CHR '','' s)
            | None \<Rightarrow> IgnoreBool False))"

text \<open>\<open>defaultLaunchArgs\<close> (lines 232-242); \<open>DEFAULT_IGNORE_DEFAULT_ARGS\<close> is passed in.\<close>

definition defaultLaunchArgs :: "config \<Rightarrow> ignoreDefaultArgs_t \<Rightarrow> ILaunchOptions" where
  "defaultLaunchArgs cfg dflt_ignore =
     \<lparr> args = Some (DEFAULT_LAUNCH_ARGS cfg),
       blockAds = DEFAULT_BLOCK_ADS cfg,
       dumpio = None,
       headless = Some (DEFAULT_HEADLESS cfg),
       ignoreDefaultArgs = dflt_ignore,
       ignoreHTTPSErrors = DEFAULT_IGNORE_HTTPS_ERRORS cfg,
       keepalive = None,
       pauseOnConnect = False,
       playwright = False,
       slowMo = None,
       trackingId = None,
       userDataDir = map_option QStr (DEFAULT_USER_DATA_DIR cfg) \<rparr>"

text \<open>\<open>canUsePrebootedChrome\<close> (lines 248-258). Only \<open>headless\<close> and \<open>args\<close> of
  \<open>defaultLaunchArgs\<close> are read, so the default of \<open>ignoreDefaultArgs\<close> does not matter.\<close>

definition canUsePrebootedChrome :: "config \<Rightarrow> ILaunchOptions \<Rightarrow> bool" where
  "canUsePrebootedChrome cfg launchArgs =
     (let dflt = defaultLaunchArgs cfg (IgnoreBool False) in
      if headless launchArgs \<noteq> None \<and> headless launchArgs \<noteq> headless dflt then False
      else if (case args launchArgs of
                 None \<Rightarrow> False
               | Some xs \<Rightarrow> Some (length xs) \<noteq> map_option length (args dflt)) then False
      else True)"

text \<open>
  The request as convertUrlParamsToLaunchOpts reads it: \<open>req.parsed.query\<close> and
  \<open>req.parsed.pathname\<close>.
\<close>

record IHTTPRequest =
  parsed_query :: ParsedUrlQuery
  parsed_pathname :: "string option"

text \<open>
  \<open>convertUrlParamsToLaunchOpts\<close> (lines 333-380). The two integer parses are library
  calls on one query value each; their results are inputs: \<open>parsedKeepalive\<close> is the value
  of \<open>_.parseInt(keepaliveQuery)\<close> and \<open>parsedSlowMo\<close> that of \<open>parseInt(slowMo, 10)\<close>, with
  \<open>None\<close> for NaN.
\<close>

definition convertUrlParamsToLaunchOpts ::
  "config \<Rightarrow> int option \<Rightarrow> int option \<Rightarrow> IHTTPRequest \<Rightarrow> ILaunchOptions" where
  "convertUrlParamsToLaunchOpts cfg parsedKeepalive parsedSlowMo req =
     (let query = parsed_query req;
          args' = map (\<lambda>(key, value). key @ (if q_truthy value then ''='' @ q_toString value else []))
                      (filter (\<lambda>(param, value). js_startsWith param ''--'') query);
          q_blockAds = map_of query ''blockAds'';
          q_headless = map_of query ''headless'';
          q_ignoreHTTPSErrors = map_of query ''ignoreHTTPSErrors'';
          q_userDataDir = map_of query ''userDataDir'';
          q_pause = map_of query ''pause'';
          q_trackingId = map_of query ''trackingId'';
          dumpioQuery = map_of query ''dumpio'';
          playwright' = (parsed_pathname req = Some (PLAYWRIGHT_ROUTE cfg));
          isHeadless = (if q_headless \<noteq> None then q_headless \<noteq> Some (QStr ''false'')
                        else DEFAULT_HEADLESS cfg);
          dumpio' = (if dumpioQuery \<noteq> None then dumpioQuery \<noteq> Some (QStr ''false'')
                     else DEFAULT_DUMPIO cfg);
          keepalive' = parsedKeepalive;
          parsedIgnoreDefaultArgs = parseIgnoreDefaultArgs query
      in \<lparr> args = Some (if args' \<noteq> [] then args' else DEFAULT_LAUNCH_ARGS cfg),
           blockAds = (q_blockAds \<noteq> None \<or> DEFAULT_BLOCK_ADS cfg),
           dumpio = Some dumpio',
           headless = Some isHeadless,
           ignoreDefaultArgs = parsedIgnoreDefaultArgs,
           ignoreHTTPSErrors = (q_ignoreHTTPSErrors \<noteq> None \<or> DEFAULT_IGNORE_HTTPS_ERRORS cfg),
           keepalive = keepalive',
           pauseOnConnect = (q_pause \<noteq> None),
           playwright = playwright',
           slowMo = (case parsedSlowMo of None \<Rightarrow> None
                     | Some n \<Rightarrow> if n = 0 then None else Some n),
           trackingId = (case q_trackingId of
                           None \<Rightarrow> None
                         | Some (QStr s) \<Rightarrow> Some s
                         | Some (QArr xs) \<Rightarrow> (case xs of [] \<Rightarrow> None | x # _ \<Rightarrow> Some x)),
           userDataDir = q_or q_userDataDir (map_option QStr (DEFAULT_USER_DATA_DIR cfg)) \<rparr>)"

section \<open>Objects, effects and the process-wide state\<close>

text \<open>
  Objects are known by their identity: \<open>ref\<close> for a puppeteer \<open>Browser\<close> or a playwright
  \<open>BrowserServer\<close>, \<open>pid\<close> for a \<open>ChildProcess\<close>, \<open>timer\<close> for a pending timeout and
  \<open>page\<close> for a puppeteer \<open>Page\<close>.
\<close>

type_synonym ref = nat
type_synonym pid = nat
type_synonym timer = nat
type_synonym page = nat
type_synonym IWindowSize = "nat \<times> nat"

text \<open>The object of Node's legacy \<open>url.parse\<close>; \<open>null\<close> is \<open>None\<close>. The parsed query is
  never read by chrome-helper.ts and is kept as text.\<close>

record urlObject =
  url_protocol :: "string option"
  url_slashes :: "bool option"
  url_auth :: "string option"
  url_host :: "string option"
  url_port :: "string option"
  url_hostname :: "string option"
  url_hash :: "string option"
  url_search :: "string option"
  url_query :: "string option"
  url_pathname :: "string option"
  url_path :: "string option"
  url_href :: "string option"

definition empty_url :: urlObject where
  "empty_url =
     \<lparr> url_protocol = None, url_slashes = None, url_auth = None, url_host = None,
       url_port = None, url_hostname = None, url_hash = None, url_search = None,
       url_query = None, url_pathname = None, url_path = None, url_href = None \<rparr>"

text \<open>The library functions chrome-helper.ts calls on strings: \<open>url.parse\<close>, \<open>url.format\<close>
  and \<open>path.join\<close> of Node. They are parameters of the model.\<close>

record libs =
  url_parse :: "string \<Rightarrow> urlObject"
  url_format :: "urlObject \<Rightarrow> string"
  path_join :: "string \<Rightarrow> string \<Rightarrow> string"

text \<open>A JavaScript value as \<open>fetchJson\<close> returns it, and as the listing returns it.
  An object is the list of its keys in insertion order.\<close>

datatype jsval =
    JUndefined
  | JNull
  | JBool bool
  | JNum int
  | JStr string
  | JArr "jsval list"
  | JObj "(string \<times> jsval) list"

type_synonym IJSONList = "(string \<times> jsval) list"
type_synonym ISession = "(string \<times> jsval) list"

text \<open>
  What can be thrown: a \<open>TypeError\<close> of the runtime (a property read on \<open>null\<close> or
  \<open>undefined\<close>, \<open>url.parse\<close> of a non-string), the error of line 284 with the port it
  prints, and a failure of an external call, with its text.
\<close>

datatype error =
    TypeError
  | MissingPort "string option"
  | Failure string

datatype logmsg =
    ChromePID pid
  | PatchingFileChooser
  | ProcessExited pid
  | LaunchingChrome ILaunchOptions
  | ShuttingDown
  | RemovingTempDataDir qvalue
  | CloseEmittedError error

datatype emitter = NodeProcess | ChildProcess pid

datatype listener = CloseBrowserOnExit ref | OtherListener nat

text \<open>The calls that leave the module, in the order they are made. \<open>BrowserDisconnect\<close>
  is \<open>browser.disconnect()\<close>, the method isPuppeteer tests for.\<close>

datatype effect =
    Debug logmsg
  | ClearTimeout timer
  | Rimraf qvalue
  | BrowserClose ref
  | BrowserDisconnect ref
  | RemoveAllListeners emitter string
  | CallBrowserHook ref
  | OnTargetCreated ref
  | CallPageHook page
  | Send page string
  | SetDownloadBehavior page string
  | SetRequestInterception page
  | OnRequest page
  | SetViewport page IWindowSize
  | OncePageClose page
  | PuppeteerLaunch ILaunchOptions
  | LaunchServer ILaunchOptions
  | ServerClose ref

text \<open>\<open>IBrowser\<close>: the fields setupBrowser adds to the puppeteer browser (source name
  \<open>_isOpen\<close> is \<open>b_isOpen\<close>, and so on). \<open>_id\<close> is assigned last and is \<open>None\<close> before.\<close>

record IBrowser =
  b_isOpen :: bool
  b_keepalive :: "int option"
  b_browserProcess :: pid
  b_isUsingTempDataDir :: bool
  b_browserlessDataDir :: "qvalue option"
  b_trackingId :: "string option"
  b_keepaliveTimeout :: "timer option"
  b_startTime :: nat
  b_prebooted :: bool
  b_blockAds :: bool
  b_pauseOnConnect :: bool
  b_browserServer :: ref
  b_parsed :: urlObject
  b_wsEndpoint :: string
  b_id :: "string option"

text \<open>
  The state of the process: the browser objects that carry \<open>IBrowser\<close> fields, the
  module variable \<open>runningBrowsers\<close> (a list of references), the listeners of the \<open>exit\<close>
  event of every emitter, and the trace of outward calls made so far.
\<close>

record world =
  heap :: "ref \<Rightarrow> IBrowser option"
  runningBrowsers :: "ref list"
  exitListeners :: "emitter \<Rightarrow> listener list"
  trace :: "effect list"

definition emit :: "effect list \<Rightarrow> world \<Rightarrow> world" where
  "emit es w = w\<lparr>trace := trace w @ es\<rparr>"

text \<open>
  The outcome of every external call: \<open>None\<close> (or \<open>Inr\<close>) when it succeeds, the error when
  it throws or rejects. \<open>rimraf_throws\<close> and \<open>close_throws\<close> are the synchronous throws of
  \<open>rimraf\<close> and \<open>browser.close\<close>, the only ones the \<open>try\<close> of closeBrowser can catch.
\<close>

record env =
  browserHook_result :: "ref \<Rightarrow> error option"
  pageHook_result :: "page \<Rightarrow> error option"
  pages_result :: "ref \<Rightarrow> error + page list"
  send_result :: "page \<Rightarrow> string \<Rightarrow> error option"
  setRequestInterception_result :: "page \<Rightarrow> error option"
  setViewport_result :: "page \<Rightarrow> error option"
  rimraf_throws :: "qvalue \<Rightarrow> error option"
  close_throws :: "ref \<Rightarrow> error option"
  fetchJson_list :: "string \<Rightarrow> error + IJSONList list"
  fetchJson_version :: "string \<Rightarrow> error + string"
  getPort_result :: string
  getUserDataDir_result :: "error + string"
  launch_result :: "error + ref \<times> pid"
  connect_result :: "string \<Rightarrow> error + ref"
  Date_now :: nat

section \<open>Page and browser setup\<close>

text \<open>A sequence of awaited steps: each step makes its calls and then either goes on or
  throws, which ends the sequence.\<close>

fun run_steps :: "(effect list \<times> error option) list \<Rightarrow> effect list \<Rightarrow> (error + unit) \<times> effect list" where
  "run_steps [] acc = (Inr (), acc)"
| "run_steps ((es, r) # rest) acc =
     (case r of
        Some e \<Rightarrow> (Inl e, acc @ es)
      | None \<Rightarrow> run_steps rest (acc @ es))"

text \<open>
  \<open>setupPage\<close> (lines 97-149): the calls it makes and whether its promise rejects. No
  step is in a \<open>try\<close>; the two sends with \<open>.catch(_.noop)\<close> cannot fail the sequence.
  The page is taken to have a \<open>_client\<close>.
\<close>

definition setupPage ::
  "config \<Rightarrow> libs \<Rightarrow> env \<Rightarrow> page \<Rightarrow> bool \<Rightarrow> bool \<Rightarrow> string option \<Rightarrow> IWindowSize option
     \<Rightarrow> (error + unit) \<times> effect list" where
  "setupPage cfg lb en pg pauseOnConnect' blockAds' trackingId' windowSize =
     run_steps
       ([([CallPageHook pg], pageHook_result en pg)] @
        (if USE_CHROME_STABLE cfg \<or> PUPPETEER_CHROMIUM_REVISION cfg \<le> 706915
         then [([Debug PatchingFileChooser,
                 Send pg ''Page.setInterceptFileChooserDialog''], None)]
         else []) @
        (if \<not> DISABLE_AUTO_SET_DOWNLOAD_BEHAVIOR cfg
         then [([SetDownloadBehavior pg
                   (case trackingId' of
                      None \<Rightarrow> WORKSPACE_DIR cfg
                    | Some t \<Rightarrow> if t \<noteq> [] then path_join lb (WORKSPACE_DIR cfg) t
                                else WORKSPACE_DIR cfg)], None)]
         else []) @
        (if pauseOnConnect' \<and> Features_DEBUG_VIEWER cfg \<notin> set (DISABLED_FEATURES cfg)
         then [([Send pg ''Debugger.enable''], send_result en pg ''Debugger.enable''),
               ([Send pg ''Debugger.pause''], send_result en pg ''Debugger.pause'')]
         else []) @
        (if blockAds'
         then [([SetRequestInterception pg], setRequestInterception_result en pg),
               ([OnRequest pg], None)]
         else []) @
        (case windowSize of
           None \<Rightarrow> []
         | Some sz \<Rightarrow> [([SetViewport pg sz], setViewport_result en pg)]) @
        [([OncePageClose pg], None)])
       []"

record setupBrowserArgs =
  sb_browser :: ref
  sb_browserWSEndpoint :: string
  sb_isUsingTempDataDir :: bool
  sb_prebooted :: bool
  sb_browserlessDataDir :: "qvalue option"
  sb_blockAds :: bool
  sb_pauseOnConnect :: bool
  sb_trackingId :: "string option"
  sb_keepalive :: "int option"
  sb_process :: pid
  sb_windowSize :: "IWindowSize option"
  sb_browserServer :: ref

text \<open>
  \<open>setupBrowser\<close> (lines 151-230). The result is the returned browser or the error the
  promise rejects with, and the state at that point. \<open>setupPage\<close> is started for every
  page without being awaited: its result is dropped, and its calls are put in the trace
  page by page although they run after setupBrowser has returned.
\<close>

definition setupBrowser ::
  "config \<Rightarrow> libs \<Rightarrow> env \<Rightarrow> setupBrowserArgs \<Rightarrow> world \<Rightarrow> (error + ref) \<times> world" where
  "setupBrowser cfg lb en a w =
     (let browser = sb_browser a;
          parsed = url_parse lb (sb_browserWSEndpoint a);
          fields =
            \<lparr> b_isOpen = True,
              b_keepalive = sb_keepalive a,
              b_browserProcess = sb_process a,
              b_isUsingTempDataDir = sb_isUsingTempDataDir a,
              b_browserlessDataDir = sb_browserlessDataDir a,
              b_trackingId = sb_trackingId a,
              b_keepaliveTimeout = None,
              b_startTime = Date_now en,
              b_prebooted = sb_prebooted a,
              b_blockAds = sb_blockAds a,
              b_pauseOnConnect = sb_pauseOnConnect a,
              b_browserServer = sb_browserServer a,
              b_parsed = parsed,
              b_wsEndpoint = sb_browserWSEndpoint a,
              b_id = (case heap w browser of None \<Rightarrow> None | Some old \<Rightarrow> b_id old) \<rparr>;
          w1 = (emit [Debug (ChromePID (sb_process a))] w)
                 \<lparr>heap := (heap w)(browser \<mapsto> fields)\<rparr>
      in case url_pathname parsed of
           None \<Rightarrow> (Inl TypeError, w1)
         | Some pathname \<Rightarrow>
             let w2 = w1\<lparr>heap := (heap w1)
                         (browser \<mapsto> fields\<lparr>b_id := Some (last (js_split CHR ''/'' pathname))\<rparr>)\<rparr>;
                 w3 = emit [CallBrowserHook browser] w2
             in case browserHook_result en browser of
                  Some e \<Rightarrow> (Inl e, w3)
                | None \<Rightarrow>
                    let w4 = w3\<lparr>exitListeners := (exitListeners w3)
                                (ChildProcess (sb_process a) :=
                                   exitListeners w3 (ChildProcess (sb_process a))
                                     @ [CloseBrowserOnExit browser])\<rparr>;
                        w5 = emit [OnTargetCreated browser] w4
                    in case pages_result en browser of
                         Inl e \<Rightarrow> (Inl e, w5)
                       | Inr pages \<Rightarrow>
                           let w6 = emit (concat (map (\<lambda>pg. snd (setupPage cfg lb en pg
                                             (sb_pauseOnConnect a) (sb_blockAds a)
                                             (sb_trackingId a) (sb_windowSize a))) pages)) w5;
                               w7 = w6\<lparr>runningBrowsers := runningBrowsers w6 @ [browser]\<rparr>
                           in (Inr browser, w7))"

section \<open>Teardown\<close>

text \<open>
  The \<open>try\<close> block of \<open>closeBrowser\<close> (lines 560-578): the error it throws, if any, and
  the state where it stops. \<open>process\<close> on line 578 is the global object of Node: the
  function has no parameter or import of that name.
\<close>

definition closeBrowser_try :: "env \<Rightarrow> ref \<Rightarrow> IBrowser \<Rightarrow> world \<Rightarrow> error option \<times> world" where
  "closeBrowser_try en browser b w =
     (let w1 = (case b_keepaliveTimeout b of
                  None \<Rightarrow> w
                | Some t \<Rightarrow> emit [ClearTimeout t] w);
          dir = (case b_browserlessDataDir b of
                   None \<Rightarrow> None
                 | Some d \<Rightarrow> if q_truthy d then Some d else None);
          w2 = (case dir of
                  None \<Rightarrow> w1
                | Some d \<Rightarrow> emit [Debug (RemovingTempDataDir d), Rimraf d] w1)
      in case (case dir of None \<Rightarrow> None | Some d \<Rightarrow> rimraf_throws en d) of
           Some e \<Rightarrow> (Some e, w2)
         | None \<Rightarrow>
             let w3 = w2\<lparr>runningBrowsers :=
                          filter (\<lambda>r. map_option b_wsEndpoint (heap w2 r) \<noteq> Some (b_wsEndpoint b))
                                 (runningBrowsers w2)\<rparr>;
                 w4 = emit [BrowserClose browser] w3
             in case close_throws en browser of
                  Some e \<Rightarrow> (Some e, w4)
                | None \<Rightarrow>
                    (None, (emit [RemoveAllListeners NodeProcess ''exit''] w4)
                             \<lparr>exitListeners := (exitListeners w4)(NodeProcess := [])\<rparr>))"

text \<open>\<open>closeBrowser\<close> (lines 552-585). A browser object without the fields has
  \<open>_isOpen\<close> undefined, which is falsy.\<close>

definition closeBrowser :: "env \<Rightarrow> ref \<Rightarrow> world \<Rightarrow> world" where
  "closeBrowser en browser w =
     (case heap w browser of
        None \<Rightarrow> w
      | Some b \<Rightarrow>
          if \<not> b_isOpen b then w
          else
            let w0 = (emit [Debug ShuttingDown] w)
                       \<lparr>heap := (heap w)(browser \<mapsto> b\<lparr>b_isOpen := False\<rparr>)\<rparr>
            in case closeBrowser_try en browser b w0 of
                 (None, w') \<Rightarrow> w'
               | (Some e, w') \<Rightarrow> emit [Debug (CloseEmittedError e)] w')"

text \<open>
  The \<open>exit\<close> event of a browser process: the listeners installed with \<open>once\<close> (lines
  200-203) are removed and run in order.
\<close>

definition emit_exit :: "env \<Rightarrow> pid \<Rightarrow> world \<Rightarrow> world" where
  "emit_exit en p w =
     fold (\<lambda>l w'. case l of
                    CloseBrowserOnExit browser \<Rightarrow>
                      closeBrowser en browser (emit [Debug (ProcessExited p)] w')
                  | OtherListener n \<Rightarrow> w')
          (exitListeners w (ChildProcess p))
          (w\<lparr>exitListeners := (exitListeners w)(ChildProcess p := [])\<rparr>)"

section \<open>Listing the debugging sessions\<close>

text \<open>The first error in order, or all the values: what a synchronous \<open>map\<close> whose
  callback may throw gives.\<close>

fun collect :: "(error + 'a) list \<Rightarrow> error + 'a list" where
  "collect [] = Inr []"
| "collect (Inl e # rs) = Inl e"
| "collect (Inr x # rs) = (case collect rs of Inl e \<Rightarrow> Inl e | Inr xs \<Rightarrow> Inr (x # xs))"

text \<open>\<open>externalHost\<close> and \<open>externalProtocol\<close> (lines 277-281); an empty string is falsy.\<close>

definition externalHost :: "config \<Rightarrow> string" where
  "externalHost cfg =
     (let local = (case HOST cfg of
                     None \<Rightarrow> ''127.0.0.1''
                   | Some h \<Rightarrow> if h \<noteq> [] then h else ''127.0.0.1'') @ '':'' @ PORT cfg
      in case PROXY_HOST cfg of
           None \<Rightarrow> local
         | Some ph \<Rightarrow>
             if ph \<noteq> []
             then ph @ (case PROXY_PORT cfg of
                          None \<Rightarrow> []
                        | Some pp \<Rightarrow> if pp \<noteq> [] then '':'' @ pp else [])
             else local)"

definition externalProtocol :: "config \<Rightarrow> string" where
  "externalProtocol cfg = (if PROXY_SSL cfg then ''wss'' else ''ws'')"

text \<open>\<open>{...parsed, ...proxyParams}\<close> (lines 292-306).\<close>

definition proxyParams :: "config \<Rightarrow> urlObject \<Rightarrow> urlObject" where
  "proxyParams cfg u =
     u\<lparr> url_host := Some (externalHost cfg),
        url_protocol := Some (externalProtocol cfg),
        url_slashes := Some True \<rparr>"

definition str_field :: "IJSONList \<Rightarrow> string \<Rightarrow> string option" where
  "str_field session k = (case map_of session k of Some (JStr s) \<Rightarrow> Some s | _ \<Rightarrow> None)"

text \<open>
  The callback of \<open>sessions.map\<close> (lines 290-324), here \<open>rewriteSession\<close>. \<open>url.parse\<close>
  throws a TypeError on a value that is not a string. The object literal keeps the keys
  of \<open>session\<close> in place and sets six keys, which is \<open>AList.update\<close> six times.
\<close>

definition rewriteSession :: "config \<Rightarrow> libs \<Rightarrow> IBrowser \<Rightarrow> string \<Rightarrow> IJSONList \<Rightarrow> error + ISession" where
  "rewriteSession cfg lb browser port session =
     (case str_field session ''webSocketDebuggerUrl'' of
        None \<Rightarrow> Inl TypeError
      | Some wsd \<Rightarrow>
          (case str_field session ''devtoolsFrontendUrl'' of
             None \<Rightarrow> Inl TypeError
           | Some dfu \<Rightarrow>
               let parsedWebSocketDebuggerUrl = proxyParams cfg (url_parse lb wsd);
                   parsedWsEndpoint = proxyParams cfg (url_parse lb (b_wsEndpoint browser));
                   browserWSEndpoint = url_format lb parsedWsEndpoint;
                   webSocketDebuggerUrl = url_format lb parsedWebSocketDebuggerUrl;
                   devtoolsFrontendUrl = url_format lb
                     (empty_url\<lparr>
                        url_pathname := url_pathname (url_parse lb dfu),
                        url_search := Some (''?'' @ externalProtocol cfg @ ''='' @ externalHost cfg
                          @ (case url_path parsedWebSocketDebuggerUrl of
                               None \<Rightarrow> ''null''
                             | Some p \<Rightarrow> p)) \<rparr>)
               in Inr (AList.update ''webSocketDebuggerUrl'' (JStr webSocketDebuggerUrl)
                      (AList.update ''trackingId''
                         (case b_trackingId browser of None \<Rightarrow> JNull | Some t \<Rightarrow> JStr t)
                      (AList.update ''port'' (JStr port)
                      (AList.update ''devtoolsFrontendUrl'' (JStr devtoolsFrontendUrl)
                      (AList.update ''browserWSEndpoint'' (JStr browserWSEndpoint)
                      (AList.update ''browserId''
                         (case b_id browser of None \<Rightarrow> JUndefined | Some i \<Rightarrow> JStr i)
                         session))))))))"

text \<open>The part of the callback of \<open>runningBrowsers.map\<close> before its \<open>await\<close> (lines
  275-285): it throws when the port is \<open>null\<close> or empty.\<close>

definition browserPort :: "world \<Rightarrow> ref \<Rightarrow> error + IBrowser \<times> string" where
  "browserPort w r =
     (case heap w r of
        None \<Rightarrow> Inl TypeError
      | Some b \<Rightarrow>
          (case url_port (b_parsed b) of
             None \<Rightarrow> Inl (MissingPort None)
           | Some port \<Rightarrow> if port = [] then Inl (MissingPort (Some port)) else Inr (b, port)))"

text \<open>\<open>getTargets\<close> (lines 90-91) and the rest of the callback (lines 287-324).\<close>

definition getTargets :: "env \<Rightarrow> string \<Rightarrow> error + IJSONList list" where
  "getTargets en port = fetchJson_list en (''http://127.0.0.1:'' @ port @ ''/json/list'')"

definition browserSessions :: "config \<Rightarrow> libs \<Rightarrow> env \<Rightarrow> IBrowser \<times> string \<Rightarrow> error + ISession list" where
  "browserSessions cfg lb en bp =
     (case getTargets en (snd bp) of
        Inl e \<Rightarrow> Inl e
      | Inr sessions \<Rightarrow> collect (map (rewriteSession cfg lb (fst bp) (snd bp)) sessions))"

text \<open>
  \<open>getDebuggingPages\<close> (lines 272-329). \<open>Promise.all\<close> rejects as soon as one of the
  promises rejects, and there is no \<open>catch\<close>. A callback that throws before its \<open>await\<close>
  rejects first. Among the later failures the first to settle wins, which depends on
  timing: the model reports the first in the order of the registry.
\<close>

definition getDebuggingPages :: "config \<Rightarrow> libs \<Rightarrow> env \<Rightarrow> world \<Rightarrow> error + ISession list" where
  "getDebuggingPages cfg lb en w =
     (case collect (map (browserPort w) (runningBrowsers w)) of
        Inl e \<Rightarrow> Inl e
      | Inr bps \<Rightarrow>
          (case collect (map (browserSessions cfg lb en) bps) of
             Inl e \<Rightarrow> Inl e
           | Inr results \<Rightarrow> Inr (concat results)))"

section \<open>Launching\<close>

record launchPlan =
  lp_launchArgs :: ILaunchOptions
  lp_isUsingTempDataDir :: bool
  lp_browserlessDataDir :: "qvalue option"

text \<open>
  Lines 384-436 of \<open>launchChrome\<close>: the launch arguments and the two local variables,
  for the port \<open>getPort\<close> gave. \<open>getUserDataDir\<close> is called only when no directory is
  given, and may fail. The constant fields of \<open>launchArgs\<close> (\<open>executablePath\<close>,
  \<open>handleSIGINT\<close>, \<open>devtools\<close>, \<open>handleSIGTERM\<close>, \<open>handleSIGHUP\<close>) are left out.
\<close>

definition launchChrome_args :: "env \<Rightarrow> ILaunchOptions \<Rightarrow> string \<Rightarrow> error + launchPlan" where
  "launchChrome_args en opts port =
     (let args0 = BROWSERLESS_ARGS
                    @ (case args opts of None \<Rightarrow> [] | Some xs \<Rightarrow> xs)
                    @ [''--remote-debugging-port='' @ port];
          isPlaywright = playwright opts;
          hasUserDataDir = list_ex (\<lambda>arg. js_includes arg ''--user-data-dir='') args0;
          isHeadless = (list_ex (\<lambda>arg. js_startsWith arg ''--headless'') args0
                        \<or> headless opts = None \<or> headless opts = Some True);
          optsDir = (case userDataDir opts of
                       None \<Rightarrow> None
                     | Some v \<Rightarrow> if q_truthy v then Some v else None);
          isUsingTempDataDir = (if hasUserDataDir \<or> optsDir \<noteq> None then False else True)
      in case (if \<not> hasUserDataDir
               then (case optsDir of
                       Some v \<Rightarrow> Inr (Some v)
                     | None \<Rightarrow> (case getUserDataDir_result en of
                                  Inl e \<Rightarrow> Inl e
                                | Inr d \<Rightarrow> Inr (Some (QStr d))))
               else Inr None) of
           Inl e \<Rightarrow> Inl e
         | Inr browserlessDataDir \<Rightarrow>
             let args1 = (if \<not> hasUserDataDir
                          then args0 @ [''--user-data-dir='' @
                                 (case browserlessDataDir of
                                    None \<Rightarrow> ''null''
                                  | Some d \<Rightarrow> q_toString d)]
                          else args0);
                 args2 = (if isHeadless then args1 @ [''--remote-debugging-pipe''] else args1);
                 args3 = (if isPlaywright
                          then filter (\<lambda>arg. \<not> js_startsWith arg ''--user-data-dir''
                                            \<and> arg \<noteq> ''--remote-debugging-pipe'') args2
                          else args2);
                 headless' = (if isPlaywright then Some True else headless opts)
             in Inr \<lparr> lp_launchArgs = opts\<lparr>args := Some args3, headless := headless'\<rparr>,
                      lp_isUsingTempDataDir = isUsingTempDataDir,
                      lp_browserlessDataDir = browserlessDataDir \<rparr>)"

text \<open>
  \<open>launchChrome\<close> (lines 382-471). \<open>isPuppeteer\<close> holds of what \<open>puppeteer.launch\<close>
  returns and not of a playwright server, which has no \<open>disconnect\<close>. The version
  response is taken to carry \<open>webSocketDebuggerUrl\<close>.
\<close>

definition launchChrome ::
  "config \<Rightarrow> libs \<Rightarrow> env \<Rightarrow> ILaunchOptions \<Rightarrow> bool \<Rightarrow> world \<Rightarrow> (error + ref) \<times> world" where
  "launchChrome cfg lb en opts isPreboot w =
     (let port = getPort_result en in
      case launchChrome_args en opts port of
        Inl e \<Rightarrow> (Inl e, w)
      | Inr plan \<Rightarrow>
          let launchArgs = lp_launchArgs plan;
              w1 = emit [Debug (LaunchingChrome launchArgs),
                         (if playwright launchArgs
                          then LaunchServer (launchArgs\<lparr>headless := Some True\<rparr>)
                          else PuppeteerLaunch launchArgs)] w
          in case launch_result en of
               Inl e \<Rightarrow> (Inl e, w1)
             | Inr (browserServer, process) \<Rightarrow>
                 (case fetchJson_version en (''http://127.0.0.1:'' @ port @ ''/json/version'') of
                    Inl e \<Rightarrow> (Inl e, emit [ServerClose browserServer] w1)
                  | Inr browserWSEndpoint \<Rightarrow>
                      (case (if \<not> playwright launchArgs then Inr browserServer
                             else connect_result en browserWSEndpoint) of
                         Inl e \<Rightarrow> (Inl e, w1)
                       | Inr browser \<Rightarrow>
                           setupBrowser cfg lb en
                             \<lparr> sb_browser = browser,
                               sb_browserWSEndpoint = browserWSEndpoint,
                               sb_isUsingTempDataDir = lp_isUsingTempDataDir plan,
                               sb_prebooted = isPreboot,
                               sb_browserlessDataDir = lp_browserlessDataDir plan,
                               sb_blockAds = blockAds opts,
                               sb_pauseOnConnect = pauseOnConnect opts,
                               sb_trackingId = (case trackingId opts of
                                                  None \<Rightarrow> None
                                                | Some t \<Rightarrow> if t \<noteq> [] then Some t else None),
                               sb_keepalive = (case keepalive opts of
                                                 None \<Rightarrow> None
                                               | Some k \<Rightarrow> if k \<noteq> 0 then Some k else None),
                               sb_process = process,
                               sb_windowSize = None,
                               sb_browserServer = browserServer \<rparr> w1)))"

section \<open>Observations on traces and specifications in the words of the claims\<close>




text \<open>The encodings of \<open>ignoreDefaultArgs\<close> as the specification lists them.\<close>

fun ignoreDefaultArgs_spec :: "qvalue option \<Rightarrow> ignoreDefaultArgs_t" where
  "ignoreDefaultArgs_spec None = IgnoreBool False"
| "ignoreDefaultArgs_spec (Some (QArr xs)) = IgnoreList xs"
| "ignoreDefaultArgs_spec (Some (QStr s)) =
     (if s = ''false'' then IgnoreBool False
      else if s = '''' \<or> s = ''true'' then IgnoreBool True
      else IgnoreList (js_split CHR '','' s))"

text \<open>A boolean-like field as the specification reads it: \<open>"false"\<close> is false, any other
  defined value is true, an undefined one takes the default.\<close>

definition boolean_like :: "bool \<Rightarrow> qvalue option \<Rightarrow> bool" where
  "boolean_like dflt v = (case v of None \<Rightarrow> dflt | Some x \<Rightarrow> x \<noteq> QStr ''false'')"

text \<open>A presence flag: true when the field is defined, whatever its value, and the
  default otherwise.\<close>

definition presence_flag :: "bool \<Rightarrow> qvalue option \<Rightarrow> bool" where
  "presence_flag dflt v = (case v of None \<Rightarrow> dflt | Some x \<Rightarrow> True)"



text \<open>The keys the listing sets in every descriptor it returns.\<close>

definition rewritten_keys :: "string list" where
  "rewritten_keys =
     [''browserId'', ''browserWSEndpoint'', ''devtoolsFrontendUrl'', ''port'',
      ''trackingId'', ''webSocketDebuggerUrl'']"

section \<open>A configuration, a library and a run to evaluate the functions on\<close>

definition sample_config :: config where
  "sample_config =
     \<lparr> DEFAULT_BLOCK_ADS = False,
       DEFAULT_DUMPIO = False,
       DEFAULT_HEADLESS = True,
       DEFAULT_IGNORE_HTTPS_ERRORS = False,
       DEFAULT_LAUNCH_ARGS = [''--window-size=1280,720''],
       DEFAULT_USER_DATA_DIR = None,
       DISABLE_AUTO_SET_DOWNLOAD_BEHAVIOR = False,
       DISABLED_FEATURES = [],
       Features_DEBUG_VIEWER = ''debugViewer'',
       USE_CHROME_STABLE = False,
       PUPPETEER_CHROMIUM_REVISION = 800071,
       HOST = None,
       PORT = ''3000'',
       PROXY_HOST = None,
       PROXY_PORT = None,
       PROXY_SSL = False,
       WORKSPACE_DIR = ''/workspace'',
       PLAYWRIGHT_ROUTE = ''/playwright'' \<rparr>"

text \<open>What \<open>url.parse\<close> returns for \<open>ws://hostname:port/pathname\<close>.\<close>

definition parsed_ws :: "string \<Rightarrow> string \<Rightarrow> string \<Rightarrow> urlObject" where
  "parsed_ws hostname port pathname =
     \<lparr> url_protocol = Some ''ws:'', url_slashes = Some True, url_auth = None,
       url_host = Some (hostname @ '':'' @ port), url_port = Some port,
       url_hostname = Some hostname, url_hash = None, url_search = None,
       url_query = None, url_pathname = Some pathname, url_path = Some pathname,
       url_href = Some (''ws://'' @ hostname @ '':'' @ port @ pathname) \<rparr>"

text \<open>What \<open>url.parse\<close> returns for a path with a query string, \<open>pathname?query\<close>.\<close>

definition parsed_path :: "string \<Rightarrow> string \<Rightarrow> urlObject" where
  "parsed_path pathname query =
     empty_url\<lparr> url_search := Some (''?'' @ query), url_query := Some query,
                url_pathname := Some pathname, url_path := Some (pathname @ ''?'' @ query),
                url_href := Some (pathname @ ''?'' @ query) \<rparr>"

text \<open>\<open>url.parse\<close> on the URLs of the sample run, and \<open>url.format\<close> on objects without
  \<open>auth\<close> whose \<open>host\<close> is set or which have no host at all.\<close>

definition sample_url_parse :: "string \<Rightarrow> urlObject" where
  "sample_url_parse s =
     (if s = ''ws://127.0.0.1:9222/devtools/browser/b1''
        then parsed_ws ''127.0.0.1'' ''9222'' ''/devtools/browser/b1''
      else if s = ''ws://127.0.0.1:9223/devtools/browser/b2''
        then parsed_ws ''127.0.0.1'' ''9223'' ''/devtools/browser/b2''
      else if s = ''ws://127.0.0.1:9222/devtools/page/p1''
        then parsed_ws ''127.0.0.1'' ''9222'' ''/devtools/page/p1''
      else if s = ''/devtools/inspector.html?ws=127.0.0.1:9222/devtools/page/p1''
        then parsed_path ''/devtools/inspector.html'' ''ws=127.0.0.1:9222/devtools/page/p1''
      else if s = ''/devtools/inspector.html?experiments=true&ws=127.0.0.1:9222/devtools/page/p1''
        then parsed_path ''/devtools/inspector.html''
               ''experiments=true&ws=127.0.0.1:9222/devtools/page/p1''
      else empty_url)"

definition sample_url_format :: "urlObject \<Rightarrow> string" where
  "sample_url_format u =
     (case url_protocol u of
        None \<Rightarrow> []
      | Some p \<Rightarrow> if p \<noteq> [] \<and> last p \<noteq> CHR '':'' then p @ '':'' else p)
     @ (if url_slashes u = Some True then ''//'' else [])
     @ (case url_host u of None \<Rightarrow> [] | Some h \<Rightarrow> h)
     @ (case url_pathname u of None \<Rightarrow> [] | Some p \<Rightarrow> p)
     @ (case url_search u of None \<Rightarrow> [] | Some s \<Rightarrow> s)
     @ (case url_hash u of None \<Rightarrow> [] | Some h \<Rightarrow> h)"

definition sample_libs :: libs where
  "sample_libs =
     \<lparr> url_parse = sample_url_parse,
       url_format = sample_url_format,
       path_join = (\<lambda>a b. a @ ''/'' @ b) \<rparr>"

text \<open>The target list of a browser with one page, as Chrome serves it.\<close>

definition sample_target :: IJSONList where
  "sample_target =
     [(''description'', JStr ''''),
      (''devtoolsFrontendUrl'',
         JStr ''/devtools/inspector.html?ws=127.0.0.1:9222/devtools/page/p1''),
      (''id'', JStr ''p1''),
      (''title'', JStr ''about:blank''),
      (''type'', JStr ''page''),
      (''url'', JStr ''about:blank''),
      (''webSocketDebuggerUrl'', JStr ''ws://127.0.0.1:9222/devtools/page/p1'')]"

text \<open>
  An environment in which every external call succeeds: the launched browser is object
  1 with process 100 on port 9222 and has one page, object 7.
\<close>

definition quiet_env :: env where
  "quiet_env =
     \<lparr> browserHook_result = (\<lambda>r. None),
       pageHook_result = (\<lambda>p. None),
       pages_result = (\<lambda>r. Inr [7]),
       send_result = (\<lambda>p m. None),
       setRequestInterception_result = (\<lambda>p. None),
       setViewport_result = (\<lambda>p. None),
       rimraf_throws = (\<lambda>d. None),
       close_throws = (\<lambda>r. None),
       fetchJson_list = (\<lambda>u. if u = ''http://127.0.0.1:9222/json/list''
                              then Inr [sample_target]
                              else Inl (Failure ''ECONNREFUSED'')),
       fetchJson_version = (\<lambda>u. Inr ''ws://127.0.0.1:9222/devtools/browser/b1''),
       getPort_result = ''9222'',
       getUserDataDir_result = Inr ''/tmp/browserless-data-dir-1'',
       launch_result = Inr (1, 100),
       connect_result = (\<lambda>u. Inr 2),
       Date_now = 0 \<rparr>"

text \<open>The same for a second browser: object 3 with process 101 on port 9223.\<close>

definition second_env :: env where
  "second_env =
     quiet_env\<lparr> fetchJson_version := (\<lambda>u. Inr ''ws://127.0.0.1:9223/devtools/browser/b2''),
                getPort_result := ''9223'',
                getUserDataDir_result := Inr ''/tmp/browserless-data-dir-2'',
                launch_result := Inr (3, 101) \<rparr>"


text \<open>The environment in which the instance-created hook fails.\<close>

definition failing_hook_env :: env where
  "failing_hook_env = quiet_env\<lparr> browserHook_result := (\<lambda>r. Some (Failure ''hook'')) \<rparr>"

definition empty_world :: world where
  "empty_world =
     \<lparr> heap = (\<lambda>r. None), runningBrowsers = [], exitListeners = (\<lambda>e. []), trace = [] \<rparr>"

text \<open>Launch options with nothing set, and with a data directory given by the caller.\<close>

definition plain_opts :: ILaunchOptions where
  "plain_opts =
     \<lparr> args = None, blockAds = False, dumpio = None, headless = None,
       ignoreDefaultArgs = IgnoreBool False, ignoreHTTPSErrors = False, keepalive = None,
       pauseOnConnect = False, playwright = False, slowMo = None, trackingId = None,
       userDataDir = None \<rparr>"

definition own_dir_opts :: ILaunchOptions where
  "own_dir_opts = plain_opts\<lparr> userDataDir := Some (QStr ''/data/profile'') \<rparr>"

text \<open>The state after one launch, after a launch with the caller's directory, and after
  two launches.\<close>

definition one_browser :: world where
  "one_browser = snd (launchChrome sample_config sample_libs quiet_env plain_opts False empty_world)"

definition own_dir_browser :: world where
  "own_dir_browser =
     snd (launchChrome sample_config sample_libs quiet_env own_dir_opts False empty_world)"

definition two_browsers :: world where
  "two_browsers =
     snd (launchChrome sample_config sample_libs second_env plain_opts False one_browser)"



text \<open>The fields of the browser of the sample launch.\<close>

definition first_browser :: IBrowser where
  "first_browser =
     \<lparr> b_isOpen = True, b_keepalive = None, b_browserProcess = 100,
       b_isUsingTempDataDir = True,
       b_browserlessDataDir = Some (QStr ''/tmp/browserless-data-dir-1''),
       b_trackingId = None, b_keepaliveTimeout = None, b_startTime = 0,
       b_prebooted = False, b_blockAds = False, b_pauseOnConnect = False,
       b_browserServer = 1,
       b_parsed = parsed_ws ''127.0.0.1'' ''9222'' ''/devtools/browser/b1'',
       b_wsEndpoint = ''ws://127.0.0.1:9222/devtools/browser/b1'',
       b_id = Some ''b1'' \<rparr>"

text \<open>The same target with a second parameter in the query of its devtools URL.\<close>

definition extra_query_target :: IJSONList where
  "extra_query_target =
     AList.update ''devtoolsFrontendUrl''
       (JStr ''/devtools/inspector.html?experiments=true&ws=127.0.0.1:9222/devtools/page/p1'')
       sample_target"

text \<open>The descriptor the listing returns for the sample target of the sample browser.\<close>

definition rewritten_target :: ISession where
  "rewritten_target =
     [(''description'', JStr ''''),
      (''devtoolsFrontendUrl'',
         JStr ''/devtools/inspector.html?ws=127.0.0.1:3000/devtools/page/p1''),
      (''id'', JStr ''p1''),
      (''title'', JStr ''about:blank''),
      (''type'', JStr ''page''),
      (''url'', JStr ''about:blank''),
      (''webSocketDebuggerUrl'', JStr ''ws://127.0.0.1:3000/devtools/page/p1''),
      (''browserId'', JStr ''b1''),
      (''browserWSEndpoint'', JStr ''ws://127.0.0.1:3000/devtools/browser/b1''),
      (''port'', JStr ''9222''),
      (''trackingId'', JNull)]"

text \<open>One field of the descriptor the listing returns for a target, when it returns one.\<close>

definition listed_field ::
  "config \<Rightarrow> libs \<Rightarrow> IBrowser \<Rightarrow> string \<Rightarrow> IJSONList \<Rightarrow> string \<Rightarrow> jsval option" where
  "listed_field cfg lb browser port session k =
     (case rewriteSession cfg lb browser port session of
        Inl e \<Rightarrow> None
      | Inr out \<Rightarrow> map_of out k)"

text \<open>The environment in which the page-created hook fails, and the arguments
  launchChrome gives setupBrowser in the sample run.\<close>

definition failing_page_hook_env :: env where
  "failing_page_hook_env = quiet_env\<lparr> pageHook_result := (\<lambda>p. Some (Failure ''page hook'')) \<rparr>"

definition sample_setup_args :: setupBrowserArgs where
  "sample_setup_args =
     \<lparr> sb_browser = 1,
       sb_browserWSEndpoint = ''ws://127.0.0.1:9222/devtools/browser/b1'',
       sb_isUsingTempDataDir = True,
       sb_prebooted = False,
       sb_browserlessDataDir = Some (QStr ''/tmp/browserless-data-dir-1''),
       sb_blockAds = False,
       sb_pauseOnConnect = False,
       sb_trackingId = None,
       sb_keepalive = None,
       sb_process = 100,
       sb_windowSize = None,
       sb_browserServer = 1 \<rparr>"

text \<open>The state after one launch in which the endpoint of the browser has lost its port.\<close>

definition portless_world :: world where
  "portless_world =
     one_browser\<lparr> heap := (heap one_browser)
       (1 \<mapsto> first_browser\<lparr> b_parsed := (b_parsed first_browser)\<lparr> url_port := None \<rparr> \<rparr>) \<rparr>"

section \<open>Properties of the option parsing\<close>

lemma js_split_not_Nil: "js_split c s \<noteq> []"
  by (induction s) (auto split: list.splits)

lemma js_split_no_sep: "t \<in> set (js_split c s) \<Longrightarrow> c \<notin> set t"
proof (induction s arbitrary: t)
  case Nil
  then show ?case by simp
next
  case (Cons x xs)
  show ?case
  proof (cases "x = c")
    case True
    with Cons show ?thesis by auto
  next
    case False
    obtain u us where sp: "js_split c xs = u # us"
      using js_split_not_Nil [of c xs] by (cases "js_split c xs") auto
    from Cons.prems False sp have "t = x # u \<or> t \<in> set us" by auto
    then show ?thesis
    proof
      assume "t = x # u"
      moreover have "c \<notin> set u" using Cons.IH [of u] sp by simp
      ultimately show ?thesis using False by auto
    next
      assume "t \<in> set us"
      then show ?thesis using Cons.IH [of t] sp by simp
    qed
  qed
qed

lemma js_join_Cons: "ts \<noteq> [] \<Longrightarrow> js_join sep (t # ts) = t @ sep @ js_join sep ts"
  by (cases ts) auto

lemma js_join_split: "js_join [c] (js_split c s) = s"
proof (induction s)
  case Nil
  then show ?case by simp
next
  case (Cons x xs)
  obtain u us where sp: "js_split c xs = u # us"
    using js_split_not_Nil [of c xs] by (cases "js_split c xs") auto
  show ?case
  proof (cases "x = c")
    case True
    then show ?thesis using Cons sp by simp
  next
    case False
    have "js_join [c] ((x # u) # us) = x # js_join [c] (u # us)"
      by (cases us) auto
    then show ?thesis using Cons sp False by simp
  qed
qed

section \<open>Claims on the option parsing\<close>

text \<open>
  Claim C8. parseIgnoreDefaultArgs maps an undefined \<open>ignoreDefaultArgs\<close> and the string
  \<open>"false"\<close> to \<open>false\<close>, the empty string and \<open>"true"\<close> to \<open>true\<close>, any other string to
  its comma-split token array (\<open>"a,b"\<close> to \<open>["a","b"]\<close>), and an array to that array
  unchanged. The tokens of a string contain no comma, and joined with commas they give
  the string back.
\<close>

theorem parseIgnoreDefaultArgs_encodings:
  "parseIgnoreDefaultArgs q = ignoreDefaultArgs_spec (map_of q ''ignoreDefaultArgs'')
   \<and> parseIgnoreDefaultArgs [(''ignoreDefaultArgs'', QStr ''a,b'')] = IgnoreList [''a'', ''b'']
   \<and> parseIgnoreDefaultArgs [(''ignoreDefaultArgs'', QArr [''a'', ''b''])] = IgnoreList [''a'', ''b'']
   \<and> js_join '','' (js_split CHR '','' s) = s
   \<and> (\<forall>t \<in> set (js_split CHR '','' s). CHR '','' \<notin> set t)"
proof -
  have "parseIgnoreDefaultArgs q = ignoreDefaultArgs_spec (map_of q ''ignoreDefaultArgs'')"
  proof (cases "map_of q ''ignoreDefaultArgs''")
    case None
    then show ?thesis by (simp add: parseIgnoreDefaultArgs_def)
  next
    case (Some v)
    then show ?thesis by (cases v) (simp_all add: parseIgnoreDefaultArgs_def)
  qed
  moreover have "parseIgnoreDefaultArgs [(''ignoreDefaultArgs'', QStr ''a,b'')] = IgnoreList [''a'', ''b'']"
    by (simp add: parseIgnoreDefaultArgs_def)
  moreover have "parseIgnoreDefaultArgs [(''ignoreDefaultArgs'', QArr [''a'', ''b''])] = IgnoreList [''a'', ''b'']"
    by (simp add: parseIgnoreDefaultArgs_def)
  moreover have "js_join '','' (js_split CHR '','' s) = s"
    by (rule js_join_split)
  moreover have "\<forall>t \<in> set (js_split CHR '','' s). CHR '','' \<notin> set t"
    using js_split_no_sep by blast
  ultimately show ?thesis by blast
qed

theorem parseIgnoreDefaultArgs_encodings_witness:
  "parseIgnoreDefaultArgs
     [(''x'', QStr ''1''), (''ignoreDefaultArgs'', QStr ''--mute-audio,--hide-scrollbars'')]
     = IgnoreList [''--mute-audio'', ''--hide-scrollbars'']
   \<and> parseIgnoreDefaultArgs [] = IgnoreBool False
   \<and> parseIgnoreDefaultArgs [(''ignoreDefaultArgs'', QStr '''')] = IgnoreBool True
   \<and> parseIgnoreDefaultArgs [(''ignoreDefaultArgs'', QStr ''true'')] = IgnoreBool True
   \<and> parseIgnoreDefaultArgs [(''ignoreDefaultArgs'', QStr ''false'')] = IgnoreBool False
   \<and> js_join '','' (js_split CHR '','' ''--mute-audio,--hide-scrollbars'')
       = ''--mute-audio,--hide-scrollbars''"
  using parseIgnoreDefaultArgs_encodings
          [of "[(''x'', QStr ''1''), (''ignoreDefaultArgs'', QStr ''--mute-audio,--hide-scrollbars'')]"
              "''--mute-audio,--hide-scrollbars''"]
        parseIgnoreDefaultArgs_encodings [of "[]" "[]"]
        parseIgnoreDefaultArgs_encodings [of "[(''ignoreDefaultArgs'', QStr '''')]" "[]"]
        parseIgnoreDefaultArgs_encodings [of "[(''ignoreDefaultArgs'', QStr ''true'')]" "[]"]
        parseIgnoreDefaultArgs_encodings [of "[(''ignoreDefaultArgs'', QStr ''false'')]" "[]"]
  by simp

text \<open>
  Claim C10. canUsePrebootedChrome compares the requested argument list with the default
  by length only, never by content. Its answer is true exactly when \<open>headless\<close> is unset
  or the default and \<open>args\<close> is unset or as long as the default list. So two argument
  lists of the same length give the same answer; when \<open>headless\<close> is unset or the default
  and the list is as long as the default list the answer is true, whatever the
  arguments are; and a list of another length gives false.
\<close>

theorem canUsePrebootedChrome_length_only:
  "canUsePrebootedChrome cfg la0
     = ((headless la0 = None \<or> headless la0 = Some (DEFAULT_HEADLESS cfg))
        \<and> (case args la0 of
             None \<Rightarrow> True
           | Some as \<Rightarrow> length as = length (DEFAULT_LAUNCH_ARGS cfg)))
   \<and> (length xs = length ys \<longrightarrow>
      canUsePrebootedChrome cfg (la\<lparr>args := Some xs\<rparr>) = canUsePrebootedChrome cfg (la\<lparr>args := Some ys\<rparr>))
   \<and> ((headless la = None \<or> headless la = Some (DEFAULT_HEADLESS cfg))
        \<and> length xs = length (DEFAULT_LAUNCH_ARGS cfg) \<longrightarrow>
      canUsePrebootedChrome cfg (la\<lparr>args := Some xs\<rparr>))
   \<and> (length zs \<noteq> length (DEFAULT_LAUNCH_ARGS cfg) \<longrightarrow>
      \<not> canUsePrebootedChrome cfg (la\<lparr>args := Some zs\<rparr>))
   \<and> (headless la2 = Some h \<and> h \<noteq> DEFAULT_HEADLESS cfg \<longrightarrow>
      \<not> canUsePrebootedChrome cfg la2)"
proof -
  have "canUsePrebootedChrome cfg la0
     = ((headless la0 = None \<or> headless la0 = Some (DEFAULT_HEADLESS cfg))
        \<and> (case args la0 of
             None \<Rightarrow> True
           | Some as \<Rightarrow> length as = length (DEFAULT_LAUNCH_ARGS cfg)))"
    by (auto simp: canUsePrebootedChrome_def defaultLaunchArgs_def split: option.splits)
  moreover have "length xs = length ys \<longrightarrow>
      canUsePrebootedChrome cfg (la\<lparr>args := Some xs\<rparr>) = canUsePrebootedChrome cfg (la\<lparr>args := Some ys\<rparr>)"
    by (auto simp: canUsePrebootedChrome_def defaultLaunchArgs_def)
  moreover have "(headless la = None \<or> headless la = Some (DEFAULT_HEADLESS cfg))
        \<and> length xs = length (DEFAULT_LAUNCH_ARGS cfg) \<longrightarrow>
      canUsePrebootedChrome cfg (la\<lparr>args := Some xs\<rparr>)"
    by (auto simp: canUsePrebootedChrome_def defaultLaunchArgs_def)
  moreover have "length zs \<noteq> length (DEFAULT_LAUNCH_ARGS cfg) \<longrightarrow>
      \<not> canUsePrebootedChrome cfg (la\<lparr>args := Some zs\<rparr>)"
    by (auto simp: canUsePrebootedChrome_def defaultLaunchArgs_def)
  moreover have "headless la2 = Some h \<and> h \<noteq> DEFAULT_HEADLESS cfg \<longrightarrow>
      \<not> canUsePrebootedChrome cfg la2"
    by (auto simp: canUsePrebootedChrome_def defaultLaunchArgs_def)
  ultimately show ?thesis by blast
qed

theorem canUsePrebootedChrome_length_only_witness:
  "length [''--disable-gpu''] = length (DEFAULT_LAUNCH_ARGS sample_config)
   \<and> set [''--disable-gpu''] \<inter> set (DEFAULT_LAUNCH_ARGS sample_config) = {}
   \<and> headless plain_opts = None
   \<and> canUsePrebootedChrome sample_config (plain_opts\<lparr>args := Some [''--disable-gpu'']\<rparr>)
   \<and> canUsePrebootedChrome sample_config (plain_opts\<lparr>args := Some [''--disable-gpu'']\<rparr>)
       = canUsePrebootedChrome sample_config (plain_opts\<lparr>args := Some (DEFAULT_LAUNCH_ARGS sample_config)\<rparr>)
   \<and> length [''--disable-gpu'', ''--mute-audio''] \<noteq> length (DEFAULT_LAUNCH_ARGS sample_config)
   \<and> \<not> canUsePrebootedChrome sample_config
         (plain_opts\<lparr>args := Some [''--disable-gpu'', ''--mute-audio'']\<rparr>)
   \<and> headless (plain_opts\<lparr>headless := Some False\<rparr>) = Some False
   \<and> False \<noteq> DEFAULT_HEADLESS sample_config
   \<and> \<not> canUsePrebootedChrome sample_config (plain_opts\<lparr>headless := Some False\<rparr>)"
proof -
  have len: "length [''--disable-gpu''] = length (DEFAULT_LAUNCH_ARGS sample_config)"
    by (simp add: sample_config_def)
  have dis: "set [''--disable-gpu''] \<inter> set (DEFAULT_LAUNCH_ARGS sample_config) = {}"
    by (simp add: sample_config_def)
  have hl: "headless plain_opts = None"
    by (simp add: plain_opts_def)
  have nlen: "length [''--disable-gpu'', ''--mute-audio''] \<noteq> length (DEFAULT_LAUNCH_ARGS sample_config)"
    by (simp add: sample_config_def)
  have hf: "headless (plain_opts\<lparr>headless := Some False\<rparr>) = Some False"
    by simp
  have nd: "False \<noteq> DEFAULT_HEADLESS sample_config"
    by (simp add: sample_config_def)
  note t = canUsePrebootedChrome_length_only
             [of sample_config plain_opts "[''--disable-gpu'']" "DEFAULT_LAUNCH_ARGS sample_config"
                 plain_opts "[''--disable-gpu'', ''--mute-audio'']"
                 "plain_opts\<lparr>headless := Some False\<rparr>" False]
  from t len have same: "canUsePrebootedChrome sample_config (plain_opts\<lparr>args := Some [''--disable-gpu'']\<rparr>)
       = canUsePrebootedChrome sample_config (plain_opts\<lparr>args := Some (DEFAULT_LAUNCH_ARGS sample_config)\<rparr>)"
    by blast
  from t len hl have yes: "canUsePrebootedChrome sample_config (plain_opts\<lparr>args := Some [''--disable-gpu'']\<rparr>)"
    by blast
  from t nlen have no: "\<not> canUsePrebootedChrome sample_config
         (plain_opts\<lparr>args := Some [''--disable-gpu'', ''--mute-audio'']\<rparr>)"
    by blast
  from t hf nd have noh: "\<not> canUsePrebootedChrome sample_config (plain_opts\<lparr>headless := Some False\<rparr>)"
    by blast
  from len dis hl yes same nlen no hf nd noh show ?thesis by blast
qed

text \<open>
  Claim C7, as stated, fails: \<open>blockAds\<close>, \<open>ignoreHTTPSErrors\<close> and \<open>pause\<close> are not
  read as boolean-like fields. With \<open>blockAds=false\<close> in the query and a default of
  false, the option is true.
\<close>

theorem boolean_like_presence_counterexample:
  "blockAds (convertUrlParamsToLaunchOpts sample_config None None
      \<lparr>parsed_query = [(''blockAds'', QStr ''false'')], parsed_pathname = Some ''/''\<rparr>)
     \<noteq> boolean_like (DEFAULT_BLOCK_ADS sample_config)
          (map_of [(''blockAds'', QStr ''false'')] ''blockAds'')"
  by (simp add: convertUrlParamsToLaunchOpts_def boolean_like_def sample_config_def)

text \<open>
  Claim C7, amended. \<open>headless\<close> and \<open>dumpio\<close> are boolean-like: \<open>"false"\<close> is false, any
  other defined value, the empty string too, is true, and an undefined field takes the
  default. \<open>blockAds\<close> and \<open>ignoreHTTPSErrors\<close> are presence flags: any defined value,
  \<open>"false"\<close> too, is true, and an undefined field takes the default. \<open>pauseOnConnect\<close> is
  true exactly when \<open>pause\<close> is defined.
\<close>

theorem convertUrlParamsToLaunchOpts_boolean_fields:
  "headless (convertUrlParamsToLaunchOpts cfg ka sm req)
     = Some (boolean_like (DEFAULT_HEADLESS cfg) (map_of (parsed_query req) ''headless''))
   \<and> dumpio (convertUrlParamsToLaunchOpts cfg ka sm req)
     = Some (boolean_like (DEFAULT_DUMPIO cfg) (map_of (parsed_query req) ''dumpio''))
   \<and> blockAds (convertUrlParamsToLaunchOpts cfg ka sm req)
     = presence_flag (DEFAULT_BLOCK_ADS cfg) (map_of (parsed_query req) ''blockAds'')
   \<and> ignoreHTTPSErrors (convertUrlParamsToLaunchOpts cfg ka sm req)
     = presence_flag (DEFAULT_IGNORE_HTTPS_ERRORS cfg) (map_of (parsed_query req) ''ignoreHTTPSErrors'')
   \<and> pauseOnConnect (convertUrlParamsToLaunchOpts cfg ka sm req)
     = presence_flag False (map_of (parsed_query req) ''pause'')"
  by (auto simp: convertUrlParamsToLaunchOpts_def boolean_like_def presence_flag_def Let_def
           split: option.splits)

theorem convertUrlParamsToLaunchOpts_boolean_fields_witness:
  "headless (convertUrlParamsToLaunchOpts sample_config None None
      \<lparr>parsed_query = [(''headless'', QStr ''false''), (''dumpio'', QStr ''''),
                       (''ignoreHTTPSErrors'', QStr ''false'')],
        parsed_pathname = Some ''/''\<rparr>) = Some False
   \<and> dumpio (convertUrlParamsToLaunchOpts sample_config None None
      \<lparr>parsed_query = [(''headless'', QStr ''false''), (''dumpio'', QStr ''''),
                       (''ignoreHTTPSErrors'', QStr ''false'')],
        parsed_pathname = Some ''/''\<rparr>) = Some True
   \<and> blockAds (convertUrlParamsToLaunchOpts sample_config None None
      \<lparr>parsed_query = [(''headless'', QStr ''false''), (''dumpio'', QStr ''''),
                       (''ignoreHTTPSErrors'', QStr ''false'')],
        parsed_pathname = Some ''/''\<rparr>) = False
   \<and> ignoreHTTPSErrors (convertUrlParamsToLaunchOpts sample_config None None
      \<lparr>parsed_query = [(''headless'', QStr ''false''), (''dumpio'', QStr ''''),
                       (''ignoreHTTPSErrors'', QStr ''false'')],
        parsed_pathname = Some ''/''\<rparr>) = True
   \<and> headless (convertUrlParamsToLaunchOpts sample_config None None
      \<lparr>parsed_query = [], parsed_pathname = Some ''/''\<rparr>) = Some True"
  using convertUrlParamsToLaunchOpts_boolean_fields [of sample_config None None
          "\<lparr>parsed_query = [(''headless'', QStr ''false''), (''dumpio'', QStr ''''),
                       (''ignoreHTTPSErrors'', QStr ''false'')],
             parsed_pathname = Some ''/''\<rparr>"]
        convertUrlParamsToLaunchOpts_boolean_fields [of sample_config None None
          "\<lparr>parsed_query = [], parsed_pathname = Some ''/''\<rparr>"]
  by (simp add: boolean_like_def presence_flag_def sample_config_def)

section \<open>Claims on the launch arguments\<close>




















section \<open>Claims on teardown\<close>











lemma closeBrowser_try_child_listeners:
  "exitListeners (snd (closeBrowser_try en r b w)) (ChildProcess p) = exitListeners w (ChildProcess p)"
  by (simp add: closeBrowser_try_def emit_def Let_def split: option.split)

lemma closeBrowser_try_no_disconnect:
  "BrowserDisconnect x \<in> set (trace (snd (closeBrowser_try en r b w)))
     \<longleftrightarrow> BrowserDisconnect x \<in> set (trace w)"
  by (simp add: closeBrowser_try_def emit_def Let_def split: option.split)

text \<open>
  Claim C4 does not hold of the code. closeBrowser never calls \<open>browser.disconnect\<close>: it
  calls \<open>browser.close\<close>, the hard close its own comment rules out. It never changes the
  \<open>exit\<close> listeners of a browser process: the listeners it removes are those of the
  Node process. In the sample run the listener installed by setupBrowser is still there
  after teardown, and the exit of the browser process runs it.
\<close>

theorem closeBrowser_hard_close:
  "exitListeners (closeBrowser en r w) (ChildProcess p) = exitListeners w (ChildProcess p)
   \<and> (BrowserDisconnect x \<in> set (trace (closeBrowser en r w))) = (BrowserDisconnect x \<in> set (trace w))
   \<and> BrowserClose 1 \<in> set (trace (closeBrowser quiet_env 1 one_browser))
   \<and> BrowserDisconnect 1 \<notin> set (trace (closeBrowser quiet_env 1 one_browser))
   \<and> exitListeners one_browser (ChildProcess 100) = [CloseBrowserOnExit 1]
   \<and> exitListeners (closeBrowser quiet_env 1 one_browser) (ChildProcess 100) = [CloseBrowserOnExit 1]
   \<and> trace (emit_exit quiet_env 100 (closeBrowser quiet_env 1 one_browser))
       = trace (closeBrowser quiet_env 1 one_browser) @ [Debug (ProcessExited 100)]"
proof -
  have g1: "exitListeners (closeBrowser en r w) (ChildProcess p) = exitListeners w (ChildProcess p)"
  proof (cases "heap w r")
    case None
    then show ?thesis by (simp add: closeBrowser_def)
  next
    case (Some b)
    let ?w0 = "(emit [Debug ShuttingDown] w)\<lparr>heap := (heap w)(r \<mapsto> b\<lparr>b_isOpen := False\<rparr>)\<rparr>"
    have "exitListeners (snd (closeBrowser_try en r b ?w0)) (ChildProcess p)
            = exitListeners w (ChildProcess p)"
      by (simp add: closeBrowser_try_child_listeners emit_def)
    with Some show ?thesis
      by (cases "closeBrowser_try en r b ?w0")
         (auto simp: closeBrowser_def emit_def Let_def split: option.splits)
  qed
  have g2: "(BrowserDisconnect x \<in> set (trace (closeBrowser en r w))) = (BrowserDisconnect x \<in> set (trace w))"
  proof (cases "heap w r")
    case None
    then show ?thesis by (simp add: closeBrowser_def)
  next
    case (Some b)
    let ?w0 = "(emit [Debug ShuttingDown] w)\<lparr>heap := (heap w)(r \<mapsto> b\<lparr>b_isOpen := False\<rparr>)\<rparr>"
    have "(BrowserDisconnect x \<in> set (trace (snd (closeBrowser_try en r b ?w0))))
            = (BrowserDisconnect x \<in> set (trace w))"
      by (simp add: closeBrowser_try_no_disconnect emit_def)
    with Some show ?thesis
      by (cases "closeBrowser_try en r b ?w0")
         (auto simp: closeBrowser_def emit_def Let_def split: option.splits)
  qed
  have c1: "BrowserClose 1 \<in> set (trace (closeBrowser quiet_env 1 one_browser))" by code_simp
  have c2: "BrowserDisconnect 1 \<notin> set (trace (closeBrowser quiet_env 1 one_browser))" by code_simp
  have c3: "exitListeners one_browser (ChildProcess 100) = [CloseBrowserOnExit 1]" by code_simp
  have c4: "exitListeners (closeBrowser quiet_env 1 one_browser) (ChildProcess 100) = [CloseBrowserOnExit 1]"
    by code_simp
  have c5: "trace (emit_exit quiet_env 100 (closeBrowser quiet_env 1 one_browser))
       = trace (closeBrowser quiet_env 1 one_browser) @ [Debug (ProcessExited 100)]" by code_simp
  from g1 g2 c1 c2 c3 c4 c5 show ?thesis by blast
qed

text \<open>
  Claim C3 does not hold of the code. A browser launched with the caller's own
  \<open>userDataDir\<close> option records that directory in \<open>_browserlessDataDir\<close> with
  \<open>_isUsingTempDataDir\<close> false, and closeBrowser deletes it.
\<close>

theorem closeBrowser_deletes_caller_dir:
  "userDataDir own_dir_opts = Some (QStr ''/data/profile'')
   \<and> map_option b_isUsingTempDataDir (heap own_dir_browser 1) = Some False
   \<and> map_option b_browserlessDataDir (heap own_dir_browser 1) = Some (Some (QStr ''/data/profile''))
   \<and> Rimraf (QStr ''/data/profile'') \<notin> set (trace own_dir_browser)
   \<and> Rimraf (QStr ''/data/profile'') \<in> set (trace (closeBrowser quiet_env 1 own_dir_browser))"
  by code_simp

section \<open>Claims on the hooks\<close>

text \<open>
  Claim C5, as stated, fails: nothing catches a failure of the instance-created hook.
  When \<open>browserHook\<close> fails, setupBrowser rejects with that failure and the browser is
  not registered, and so launchChrome rejects too.
\<close>

theorem browserHook_failure_counterexample:
  "browserHook_result failing_hook_env 1 = Some (Failure ''hook'')
   \<and> fst (setupBrowser sample_config sample_libs failing_hook_env sample_setup_args empty_world)
       = Inl (Failure ''hook'')
   \<and> runningBrowsers (snd (setupBrowser sample_config sample_libs failing_hook_env
                              sample_setup_args empty_world)) = []
   \<and> fst (launchChrome sample_config sample_libs failing_hook_env plain_opts False empty_world)
       = Inl (Failure ''hook'')"
  by code_simp

lemma setupPage_pageHook_fails:
  "pageHook_result en pg = Some e \<Longrightarrow>
   setupPage cfg lb en pg poc ba tid ws = (Inl e, [CallPageHook pg])"
  by (simp add: setupPage_def)

text \<open>
  Claim C5, amended. A failure of \<open>browserHook\<close> is not caught: setupBrowser rejects with
  it, the browser is neither registered nor returned, and no exit listener is
  installed. A failure of \<open>pageHook\<close> is not caught either: setupPage rejects with it
  right after the call of the hook and the rest of the page setup is skipped; as
  setupPage is not awaited, setupBrowser still completes, registers the browser and
  returns it whenever \<open>browserHook\<close> and \<open>browser.pages\<close> succeed.
\<close>

theorem setupBrowser_hooks:
  "(url_pathname (url_parse lb (sb_browserWSEndpoint a)) \<noteq> None
      \<and> browserHook_result en1 (sb_browser a) = Some e \<longrightarrow>
        fst (setupBrowser cfg lb en1 a w) = Inl e
        \<and> runningBrowsers (snd (setupBrowser cfg lb en1 a w)) = runningBrowsers w
        \<and> exitListeners (snd (setupBrowser cfg lb en1 a w)) = exitListeners w)
   \<and> (url_pathname (url_parse lb (sb_browserWSEndpoint a)) \<noteq> None
      \<and> browserHook_result en2 (sb_browser a) = None
      \<and> pages_result en2 (sb_browser a) = Inr pages \<longrightarrow>
        fst (setupBrowser cfg lb en2 a w) = Inr (sb_browser a)
        \<and> runningBrowsers (snd (setupBrowser cfg lb en2 a w)) = runningBrowsers w @ [sb_browser a])
   \<and> (pageHook_result en2 pg = Some e' \<longrightarrow>
        setupPage cfg lb en2 pg poc ba tid ws = (Inl e', [CallPageHook pg]))"
  by (auto simp: setupBrowser_def emit_def Let_def setupPage_pageHook_fails)

theorem setupBrowser_hooks_witness:
  "url_pathname (url_parse sample_libs (sb_browserWSEndpoint sample_setup_args)) \<noteq> None
   \<and> browserHook_result failing_hook_env (sb_browser sample_setup_args) = Some (Failure ''hook'')
   \<and> browserHook_result failing_page_hook_env (sb_browser sample_setup_args) = None
   \<and> pages_result failing_page_hook_env (sb_browser sample_setup_args) = Inr [7]
   \<and> pageHook_result failing_page_hook_env 7 = Some (Failure ''page hook'')
   \<and> fst (setupBrowser sample_config sample_libs failing_hook_env sample_setup_args empty_world)
       = Inl (Failure ''hook'')
   \<and> runningBrowsers (snd (setupBrowser sample_config sample_libs failing_hook_env
                              sample_setup_args empty_world)) = []
   \<and> fst (setupBrowser sample_config sample_libs failing_page_hook_env sample_setup_args empty_world)
       = Inr 1
   \<and> runningBrowsers (snd (setupBrowser sample_config sample_libs failing_page_hook_env
                              sample_setup_args empty_world)) = [1]
   \<and> setupPage sample_config sample_libs failing_page_hook_env 7 False False None None
       = (Inl (Failure ''page hook''), [CallPageHook 7])"
proof -
  have p: "url_pathname (url_parse sample_libs (sb_browserWSEndpoint sample_setup_args)) \<noteq> None"
    by code_simp
  have h1: "browserHook_result failing_hook_env (sb_browser sample_setup_args) = Some (Failure ''hook'')"
    by code_simp
  have h2: "browserHook_result failing_page_hook_env (sb_browser sample_setup_args) = None"
    by code_simp
  have h3: "pages_result failing_page_hook_env (sb_browser sample_setup_args) = Inr [7]"
    by code_simp
  have h4: "pageHook_result failing_page_hook_env 7 = Some (Failure ''page hook'')"
    by code_simp
  have b: "sb_browser sample_setup_args = 1" by code_simp
  have r: "runningBrowsers empty_world = []" by code_simp
  note t = setupBrowser_hooks [of sample_libs sample_setup_args failing_hook_env "Failure ''hook''"
             sample_config empty_world failing_page_hook_env "[7]" 7 "Failure ''page hook''"
             False False None None]
  from t p h1 have a1: "fst (setupBrowser sample_config sample_libs failing_hook_env sample_setup_args empty_world)
       = Inl (Failure ''hook'')"
    and a2: "runningBrowsers (snd (setupBrowser sample_config sample_libs failing_hook_env
                              sample_setup_args empty_world)) = runningBrowsers empty_world"
    by blast+
  from t p h2 h3 have a3: "fst (setupBrowser sample_config sample_libs failing_page_hook_env sample_setup_args empty_world)
       = Inr (sb_browser sample_setup_args)"
    and a4: "runningBrowsers (snd (setupBrowser sample_config sample_libs failing_page_hook_env
                              sample_setup_args empty_world)) = runningBrowsers empty_world @ [sb_browser sample_setup_args]"
    by blast+
  from t h4 have a5: "setupPage sample_config sample_libs failing_page_hook_env 7 False False None None
       = (Inl (Failure ''page hook''), [CallPageHook 7])" by blast
  from p h1 h2 h3 h4 a1 a2 a3 a4 a5 show ?thesis by (simp add: b r)
qed

section \<open>Claims on the listing of debugging sessions\<close>

lemma collect_map_Inr: "collect (map Inr xs) = Inr xs"
  by (induction xs) auto

lemma collect_Inr_D: "collect rs = Inr xs \<Longrightarrow> rs = map Inr xs"
proof (induction rs arbitrary: xs)
  case Nil
  then show ?case by simp
next
  case (Cons r rs)
  show ?case
  proof (cases r)
    case (Inl e)
    with Cons.prems show ?thesis by simp
  next
    case (Inr x)
    show ?thesis
    proof (cases "collect rs")
      case (Inl e)
      with Cons.prems Inr show ?thesis by simp
    next
      case inr: (Inr ys)
      with Cons.prems Inr have "xs = x # ys" by simp
      moreover from Cons.IH [OF inr] have "rs = map Inr ys" .
      ultimately show ?thesis using Inr by simp
    qed
  qed
qed

lemma collect_Inr_iff: "collect rs = Inr xs \<longleftrightarrow> rs = map Inr xs"
  using collect_Inr_D collect_map_Inr by blast

lemma collect_Inl_mem: "collect rs = Inl e \<Longrightarrow> Inl e \<in> set rs"
proof (induction rs)
  case Nil
  then show ?case by simp
next
  case (Cons r rs)
  then show ?case by (cases r) (auto split: sum.splits)
qed

lemma collect_fails: "Inl e \<in> set rs \<Longrightarrow> \<exists>e'. collect rs = Inl e'"
proof (induction rs)
  case Nil
  then show ?case by simp
next
  case (Cons r rs)
  then show ?case by (cases r) (auto split: sum.splits)
qed

lemma getDebuggingPages_fetch_fails:
  assumes r: "r \<in> set (runningBrowsers w)"
    and bp: "browserPort w r = Inr (b, port)"
    and ft: "getTargets en port = Inl e"
  shows "\<exists>e'. getDebuggingPages cfg lb en w = Inl e'"
proof (cases "collect (map (browserPort w) (runningBrowsers w))")
  case (Inl e0)
  then show ?thesis by (simp add: getDebuggingPages_def)
next
  case (Inr bps)
  then have "map (browserPort w) (runningBrowsers w) = map Inr bps"
    by (simp add: collect_Inr_iff)
  moreover from r bp have "Inr (b, port) \<in> set (map (browserPort w) (runningBrowsers w))"
    by force
  ultimately have "(b, port) \<in> set bps" by auto
  moreover from ft have "browserSessions cfg lb en (b, port) = Inl e"
    by (simp add: browserSessions_def)
  ultimately have "Inl e \<in> set (map (browserSessions cfg lb en) bps)" by force
  from collect_fails [OF this] obtain e' where
    "collect (map (browserSessions cfg lb en) bps) = Inl e'" ..
  with Inr show ?thesis by (simp add: getDebuggingPages_def)
qed

lemma getDebuggingPages_port_fails:
  assumes r: "r \<in> set (runningBrowsers w)" and bp: "browserPort w r = Inl e"
  shows "\<exists>e'. getDebuggingPages cfg lb en w = Inl e'
              \<and> (\<exists>r' \<in> set (runningBrowsers w). browserPort w r' = Inl e')"
proof -
  from r bp have "Inl e \<in> set (map (browserPort w) (runningBrowsers w))" by force
  from collect_fails [OF this] obtain e' where
    c: "collect (map (browserPort w) (runningBrowsers w)) = Inl e'" ..
  from collect_Inl_mem [OF c] have "\<exists>r' \<in> set (runningBrowsers w). browserPort w r' = Inl e'"
    by auto
  with c show ?thesis by (simp add: getDebuggingPages_def)
qed

lemma getDebuggingPages_Inr:
  assumes "getDebuggingPages cfg lb en w = Inr ss"
  shows "\<exists>bps results.
           map (browserPort w) (runningBrowsers w) = map Inr bps
           \<and> map (browserSessions cfg lb en) bps = map Inr results
           \<and> ss = concat results"
  using assms
  by (auto simp: getDebuggingPages_def collect_Inr_iff split: sum.splits)

text \<open>
  Claim C2, as stated, fails: the listing has no partial-failure tolerance. With two
  registered browsers, the fetch of the first succeeding and the fetch of the second
  failing, the whole listing fails with the error of that fetch, and the sessions of the
  first browser, which the listing returns when it is alone, are not returned.
\<close>

theorem getDebuggingPages_fetch_failure_counterexample:
  "runningBrowsers two_browsers = [1, 3]
   \<and> map_option (url_port \<circ> b_parsed) (heap two_browsers 1) = Some (Some ''9222'')
   \<and> map_option (url_port \<circ> b_parsed) (heap two_browsers 3) = Some (Some ''9223'')
   \<and> getTargets quiet_env ''9222'' = Inr [sample_target]
   \<and> getTargets quiet_env ''9223'' = Inl (Failure ''ECONNREFUSED'')
   \<and> getDebuggingPages sample_config sample_libs quiet_env two_browsers
       = Inl (Failure ''ECONNREFUSED'')
   \<and> getDebuggingPages sample_config sample_libs quiet_env one_browser = Inr [rewritten_target]"
  by code_simp

text \<open>
  Claim C2, amended. The listing is all or nothing. If the fetch of the target list of
  any registered browser fails, the whole listing fails. If the parsed endpoint of any
  registered browser has no port, the whole listing fails with the error of such a
  browser, whatever the fetches do. When the listing returns, every registered browser
  has a port, every fetch and every rewriting has succeeded, and the result is the
  concatenation of the rewritten sessions of all browsers in the order of the registry.
\<close>

theorem getDebuggingPages_all_or_nothing:
  "(r \<in> set (runningBrowsers w) \<and> browserPort w r = Inr (b, port)
      \<and> getTargets en port = Inl e \<longrightarrow>
        (\<exists>e'. getDebuggingPages cfg lb en w = Inl e'))
   \<and> (r2 \<in> set (runningBrowsers w2) \<and> browserPort w2 r2 = Inl e2 \<longrightarrow>
        (\<exists>e'. getDebuggingPages cfg lb en2 w2 = Inl e'
              \<and> (\<exists>r' \<in> set (runningBrowsers w2). browserPort w2 r' = Inl e')))
   \<and> (getDebuggingPages cfg lb en3 w3 = Inr ss \<longrightarrow>
        (\<exists>bps results.
           map (browserPort w3) (runningBrowsers w3) = map Inr bps
           \<and> map (browserSessions cfg lb en3) bps = map Inr results
           \<and> ss = concat results))"
  using getDebuggingPages_fetch_fails [of r w b port en e cfg lb]
        getDebuggingPages_port_fails [of r2 w2 e2 cfg lb en2]
        getDebuggingPages_Inr [of cfg lb en3 w3 ss]
  by blast

theorem getDebuggingPages_all_or_nothing_witness:
  "3 \<in> set (runningBrowsers two_browsers)
   \<and> map_sum id snd (browserPort two_browsers 3) = Inr ''9223''
   \<and> getTargets quiet_env ''9223'' = Inl (Failure ''ECONNREFUSED'')
   \<and> (\<exists>e'. getDebuggingPages sample_config sample_libs quiet_env two_browsers = Inl e')
   \<and> 1 \<in> set (runningBrowsers portless_world)
   \<and> browserPort portless_world 1 = Inl (MissingPort None)
   \<and> (\<exists>e'. getDebuggingPages sample_config sample_libs second_env portless_world = Inl e')
   \<and> getDebuggingPages sample_config sample_libs quiet_env one_browser = Inr [rewritten_target]
   \<and> (\<exists>bps results.
         map (browserPort one_browser) (runningBrowsers one_browser) = map Inr bps
         \<and> map (browserSessions sample_config sample_libs quiet_env) bps = map Inr results
         \<and> [rewritten_target] = concat results)"
proof -
  have m3: "3 \<in> set (runningBrowsers two_browsers)" by code_simp
  have p3: "map_sum id snd (browserPort two_browsers 3) = Inr ''9223''" by code_simp
  then obtain b where b: "browserPort two_browsers 3 = Inr (b, ''9223'')"
    by (cases "browserPort two_browsers 3") auto
  have f3: "getTargets quiet_env ''9223'' = Inl (Failure ''ECONNREFUSED'')" by code_simp
  have m1: "1 \<in> set (runningBrowsers portless_world)" by code_simp
  have p1: "browserPort portless_world 1 = Inl (MissingPort None)" by code_simp
  have ok: "getDebuggingPages sample_config sample_libs quiet_env one_browser = Inr [rewritten_target]"
    by code_simp
  note t = getDebuggingPages_all_or_nothing
             [of 3 two_browsers b "''9223''" quiet_env "Failure ''ECONNREFUSED''"
                 sample_config sample_libs 1 portless_world "MissingPort None" second_env
                 quiet_env one_browser "[rewritten_target]"]
  from t m3 b f3 have a: "\<exists>e'. getDebuggingPages sample_config sample_libs quiet_env two_browsers = Inl e'"
    by blast
  from t m1 p1 have c: "\<exists>e'. getDebuggingPages sample_config sample_libs second_env portless_world = Inl e'"
    by blast
  from t ok have d: "\<exists>bps results.
         map (browserPort one_browser) (runningBrowsers one_browser) = map Inr bps
         \<and> map (browserSessions sample_config sample_libs quiet_env) bps = map Inr results
         \<and> [rewritten_target] = concat results"
    by blast
  from m3 p3 f3 a m1 p1 c ok d show ?thesis by blast
qed

lemma url_path_proxyParams: "url_path (proxyParams cfg u) = url_path u"
  by (simp add: proxyParams_def)

text \<open>
  Claim C9, as stated, fails. The descriptor the listing returns differs from the source
  descriptor in more than host, protocol and one query parameter: it has the fields
  \<open>port\<close> and \<open>browserId\<close> (and \<open>browserWSEndpoint\<close>, \<open>trackingId\<close>), which the source
  descriptor of Chrome does not have, and the query of its devtools URL is replaced as a
  whole, so a second parameter of the source URL is lost.
\<close>

theorem rewriteSession_counterexample:
  "map_of sample_target ''port'' = None
   \<and> listed_field sample_config sample_libs first_browser ''9222'' sample_target ''port''
       = Some (JStr ''9222'')
   \<and> map_of sample_target ''browserId'' = None
   \<and> listed_field sample_config sample_libs first_browser ''9222'' sample_target ''browserId''
       = Some (JStr ''b1'')
   \<and> map_of extra_query_target ''devtoolsFrontendUrl''
       = Some (JStr ''/devtools/inspector.html?experiments=true&ws=127.0.0.1:9222/devtools/page/p1'')
   \<and> listed_field sample_config sample_libs first_browser ''9222'' extra_query_target
         ''devtoolsFrontendUrl''
       = Some (JStr ''/devtools/inspector.html?ws=127.0.0.1:3000/devtools/page/p1'')"
  by code_simp

text \<open>
  Claim C9, amended. The descriptor the listing returns keeps, with its value, every
  field of the source descriptor whose key is not one of \<open>browserId\<close>,
  \<open>browserWSEndpoint\<close>, \<open>devtoolsFrontendUrl\<close>, \<open>port\<close>, \<open>trackingId\<close> and
  \<open>webSocketDebuggerUrl\<close>. Its \<open>webSocketDebuggerUrl\<close> is the source URL parsed, with
  only \<open>host\<close>, \<open>protocol\<close> and \<open>slashes\<close> replaced, and formatted again. Its
  \<open>devtoolsFrontendUrl\<close> is formatted from the pathname of the source URL alone and the
  query \<open>?protocol=host\<close> followed by the path of the WebSocket URL: every other part of
  the source URL is dropped. \<open>browserWSEndpoint\<close>, \<open>browserId\<close>, \<open>port\<close> and \<open>trackingId\<close>
  are set from the browser, over a source field of the same name if there is one.
\<close>

theorem rewriteSession_frame:
  assumes "rewriteSession cfg lb browser port session = Inr out"
  shows "(\<forall>k. k \<notin> set rewritten_keys \<longrightarrow> map_of out k = map_of session k)
   \<and> (\<exists>wsd dfu.
        str_field session ''webSocketDebuggerUrl'' = Some wsd
        \<and> str_field session ''devtoolsFrontendUrl'' = Some dfu
        \<and> map_of out ''webSocketDebuggerUrl''
            = Some (JStr (url_format lb ((url_parse lb wsd)
                \<lparr> url_host := Some (externalHost cfg),
                  url_protocol := Some (externalProtocol cfg),
                  url_slashes := Some True \<rparr>)))
        \<and> map_of out ''devtoolsFrontendUrl''
            = Some (JStr (url_format lb (empty_url
                \<lparr> url_pathname := url_pathname (url_parse lb dfu),
                  url_search := Some (''?'' @ externalProtocol cfg @ ''='' @ externalHost cfg
                     @ (case url_path (url_parse lb wsd) of None \<Rightarrow> ''null'' | Some p \<Rightarrow> p)) \<rparr>))))
   \<and> map_of out ''browserWSEndpoint''
        = Some (JStr (url_format lb ((url_parse lb (b_wsEndpoint browser))
                \<lparr> url_host := Some (externalHost cfg),
                  url_protocol := Some (externalProtocol cfg),
                  url_slashes := Some True \<rparr>)))
   \<and> map_of out ''browserId''
        = Some (case b_id browser of None \<Rightarrow> JUndefined | Some i \<Rightarrow> JStr i)
   \<and> map_of out ''port'' = Some (JStr port)
   \<and> map_of out ''trackingId''
        = Some (case b_trackingId browser of None \<Rightarrow> JNull | Some t \<Rightarrow> JStr t)"
proof -
  from assms obtain wsd dfu where
    w: "str_field session ''webSocketDebuggerUrl'' = Some wsd" and
    d: "str_field session ''devtoolsFrontendUrl'' = Some dfu"
    by (auto simp: rewriteSession_def split: option.splits)
  from assms w d have out: "out =
      AList.update ''webSocketDebuggerUrl''
         (JStr (url_format lb (proxyParams cfg (url_parse lb wsd))))
      (AList.update ''trackingId''
         (case b_trackingId browser of None \<Rightarrow> JNull | Some t \<Rightarrow> JStr t)
      (AList.update ''port'' (JStr port)
      (AList.update ''devtoolsFrontendUrl''
         (JStr (url_format lb (empty_url
                \<lparr> url_pathname := url_pathname (url_parse lb dfu),
                  url_search := Some (''?'' @ externalProtocol cfg @ ''='' @ externalHost cfg
                     @ (case url_path (url_parse lb wsd) of None \<Rightarrow> ''null'' | Some p \<Rightarrow> p)) \<rparr>)))
      (AList.update ''browserWSEndpoint''
         (JStr (url_format lb (proxyParams cfg (url_parse lb (b_wsEndpoint browser)))))
      (AList.update ''browserId''
         (case b_id browser of None \<Rightarrow> JUndefined | Some i \<Rightarrow> JStr i)
         session)))))"
    by (simp add: rewriteSession_def Let_def url_path_proxyParams)
  have frame: "\<forall>k. k \<notin> set rewritten_keys \<longrightarrow> map_of out k = map_of session k"
    unfolding out by (simp add: update_conv' rewritten_keys_def)
  have vals: "map_of out ''webSocketDebuggerUrl''
            = Some (JStr (url_format lb (proxyParams cfg (url_parse lb wsd))))"
    "map_of out ''devtoolsFrontendUrl''
            = Some (JStr (url_format lb (empty_url
                \<lparr> url_pathname := url_pathname (url_parse lb dfu),
                  url_search := Some (''?'' @ externalProtocol cfg @ ''='' @ externalHost cfg
                     @ (case url_path (url_parse lb wsd) of None \<Rightarrow> ''null'' | Some p \<Rightarrow> p)) \<rparr>)))"
    "map_of out ''browserWSEndpoint''
        = Some (JStr (url_format lb (proxyParams cfg (url_parse lb (b_wsEndpoint browser)))))"
    "map_of out ''browserId''
        = Some (case b_id browser of None \<Rightarrow> JUndefined | Some i \<Rightarrow> JStr i)"
    "map_of out ''port'' = Some (JStr port)"
    "map_of out ''trackingId''
        = Some (case b_trackingId browser of None \<Rightarrow> JNull | Some t \<Rightarrow> JStr t)"
    unfolding out by (simp_all add: update_conv')
  from frame vals w d show ?thesis by (simp add: proxyParams_def)
qed

theorem rewriteSession_frame_witness:
  "rewriteSession sample_config sample_libs first_browser ''9222'' sample_target
     = Inr rewritten_target
   \<and> map_of rewritten_target ''id'' = map_of sample_target ''id''
   \<and> map_of rewritten_target ''title'' = map_of sample_target ''title''
   \<and> map_of rewritten_target ''url'' = map_of sample_target ''url''
   \<and> map_of rewritten_target ''port'' = Some (JStr ''9222'')
   \<and> map_of rewritten_target ''trackingId'' = Some JNull
   \<and> map_of rewritten_target ''browserId'' = Some (JStr ''b1'')"
proof -
  have eq: "rewriteSession sample_config sample_libs first_browser ''9222'' sample_target
     = Inr rewritten_target" by code_simp
  have k: "''id'' \<notin> set rewritten_keys" "''title'' \<notin> set rewritten_keys"
    "''url'' \<notin> set rewritten_keys" by code_simp+
  have v: "b_id first_browser = Some ''b1''" "b_trackingId first_browser = None" by code_simp+
  note t = rewriteSession_frame [OF eq]
  from t k have f: "map_of rewritten_target ''id'' = map_of sample_target ''id''"
    "map_of rewritten_target ''title'' = map_of sample_target ''title''"
    "map_of rewritten_target ''url'' = map_of sample_target ''url''" by blast+
  from t v have g: "map_of rewritten_target ''port'' = Some (JStr ''9222'')"
    "map_of rewritten_target ''trackingId'' = Some JNull"
    "map_of rewritten_target ''browserId'' = Some (JStr ''b1'')" by simp_all
  from eq f g show ?thesis by blast
qed

end
